theory Spec2Isabelle
  imports Main
begin

section \<open>The research workflow of the multi-agent research assistant\<close>

text \<open>
  The repository holds the same pipeline twice: \<^verbatim>\<open>agents.py\<close> (the command-line
  program) and \<^verbatim>\<open>main.py\<close> (the Gradio application). The stage functions are the same
  up to three literals, collected in the record \<open>limits\<close> below, and the two
  \<^verbatim>\<open>run_research_workflow\<close> functions differ in how they drive the compiled graph.

  The external collaborators (the chat model, the output parsers of the three schemas and
  the HTTP endpoint of the search service) are parameters of the model. Every call to the
  chat model and to the search endpoint is appended to a call log, which is the only
  state outside \<open>ResearchState\<close>; a collaborator answers as a function of the log so
  far and of its request, so that it may answer differently when asked again.

  Console output is not part of the model: the statements are about the state and the
  collaborator calls of runs whose printing succeeds. Both files print non-ASCII text
  outside their \<^verbatim>\<open>try\<close> blocks, which raises \<^verbatim>\<open>UnicodeEncodeError\<close> on a console
  that cannot encode it.
\<close>

subsection \<open>Values and exceptions\<close>

text \<open>
  A decoded JSON document, as \<^verbatim>\<open>resp.json()\<close> returns it. \<open>JNull\<close> is \<^verbatim>\<open>None\<close>;
  an object is the list of its members, read with \<open>map_of\<close>. Numbers are integers:
  the code reads no number.
\<close>

datatype json =
  JNull
  | JBool bool
  | JNum int
  | JStr string
  | JArr "json list"
  | JObj "(string \<times> json) list"

text \<open>A raised exception: its class and the text that \<^verbatim>\<open>f"{e}"\<close> prints.\<close>

datatype exn = Raised (exn_class: string) (exn_str: string)

definition quoted :: "string \<Rightarrow> string" where
  "quoted s = [CHR 0x27] @ s @ [CHR 0x27]"

fun py_type_name :: "json \<Rightarrow> string" where
  "py_type_name JNull = ''NoneType''"
| "py_type_name (JBool b) = ''bool''"
| "py_type_name (JNum n) = ''int''"
| "py_type_name (JStr s) = ''str''"
| "py_type_name (JArr xs) = ''list''"
| "py_type_name (JObj kvs) = ''dict''"

text \<open>\<^verbatim>\<open>xs[:k]\<close>: a negative bound counts from the end.\<close>

definition py_slice_to :: "int \<Rightarrow> 'a list \<Rightarrow> 'a list" where
  "py_slice_to k xs =
     (if 0 \<le> k then take (nat k) xs else take (length xs - nat (- k)) xs)"

text \<open>\<^verbatim>\<open>v.get(key, default)\<close>: only a dict has the method.\<close>

fun json_get :: "json \<Rightarrow> string \<Rightarrow> json \<Rightarrow> exn + json" where
  "json_get (JObj kvs) key dflt =
     Inr (case map_of kvs key of None \<Rightarrow> dflt | Some v \<Rightarrow> v)"
| "json_get v key dflt =
     Inl (Raised ''AttributeError''
            (quoted (py_type_name v) @ '' object has no attribute '' @ quoted ''get''))"

text \<open>
  \<^verbatim>\<open>v[:k]\<close> followed by iteration: a list gives its items, a string its characters as
  one-character strings; a dict cannot be indexed by a slice (the text is that of
  CPython up to 3.11) and the other values are not subscriptable.
\<close>

fun json_slice_to :: "json \<Rightarrow> int \<Rightarrow> exn + json list" where
  "json_slice_to (JArr xs) k = Inr (py_slice_to k xs)"
| "json_slice_to (JStr s) k = Inr (map (\<lambda>c. JStr [c]) (py_slice_to k s))"
| "json_slice_to (JObj kvs) k =
     Inl (Raised ''TypeError'' (''unhashable type: '' @ quoted ''slice''))"
| "json_slice_to v k =
     Inl (Raised ''TypeError'' (quoted (py_type_name v) @ '' object is not subscriptable''))"

subsection \<open>Schemas and state\<close>

record search_result =
  title :: json
  url :: json
  content :: json

datatype SearchQuery = SearchQuery (query: string) (rationale: string)

datatype ResearchSummary =
  ResearchSummary (summary: string) (key_insights: "string list")
    (sources_consulted: "string list")

datatype FollowUpQuestion = FollowUpQuestion (question: string) (fq_rationale: string)

record ResearchState =
  user_query :: string
  search_queries :: "string list"
  search_results :: "search_result list"
  research_summary :: string
  follow_up_questions :: "string list"
  current_step :: string
  errors :: "string list"

subsection \<open>Collaborators\<close>

text \<open>
  The request sent to the chat model. The prompt of a stage is its fixed instruction
  text and the parser's format instructions around the values interpolated from the
  state, so a request is identified by the stage and those values.
\<close>

datatype llm_request =
  AnalyseQuery string
  | Synthesise string "search_result list"
  | FollowUps string string

datatype call = LLMCall llm_request | SearchCall string int

text \<open>
  \<open>llm_invoke\<close> is \<^verbatim>\<open>LLM.invoke(msg).content\<close>; the three \<open>parse\<close> functions are
  \<^verbatim>\<open>PydanticOutputParser(...).parse\<close> at the three schemas; \<open>http_post\<close> is
  \<^verbatim>\<open>requests.post\<close>, \<^verbatim>\<open>raise_for_status\<close> and \<^verbatim>\<open>resp.json()\<close>
  for a query and a result count. Each either raises or returns.
\<close>

record collaborators =
  llm_invoke :: "call list \<Rightarrow> llm_request \<Rightarrow> exn + string"
  parse_queries :: "string \<Rightarrow> exn + SearchQuery list"
  parse_summary :: "string \<Rightarrow> exn + ResearchSummary"
  parse_questions :: "string \<Rightarrow> exn + FollowUpQuestion list"
  http_post :: "call list \<Rightarrow> string \<Rightarrow> int \<Rightarrow> exn + json"

text \<open>
  The literals on which the two files differ: the slice bound on the parsed queries
  (\<^verbatim>\<open>[:3]\<close> in \<^verbatim>\<open>main.py\<close>, no slice in \<^verbatim>\<open>agents.py\<close>), the slice bound on the
  parsed follow-up questions (\<^verbatim>\<open>[:2]\<close>, no slice) and the \<open>k\<close> of the search tool.
\<close>

record limits =
  query_cap :: "int option"
  follow_up_cap :: "int option"
  search_k :: int

definition agents_limits :: limits where
  "agents_limits = \<lparr>query_cap = None, follow_up_cap = None, search_k = 10\<rparr>"

definition main_limits :: limits where
  "main_limits = \<lparr>query_cap = Some 3, follow_up_cap = Some 2, search_k = 5\<rparr>"

definition capped :: "int option \<Rightarrow> 'a list \<Rightarrow> 'a list" where
  "capped cap xs = (case cap of None \<Rightarrow> xs | Some n \<Rightarrow> py_slice_to n xs)"

subsection \<open>SerperSearchTool.invoke\<close>

text \<open>The loop over the sliced items: each item must be a dict.\<close>

fun collect_results :: "json list \<Rightarrow> search_result list \<Rightarrow> exn + search_result list" where
  "collect_results [] results = Inr results"
| "collect_results (item # items) results =
     (case json_get item ''title'' JNull of
        Inl e \<Rightarrow> Inl e
      | Inr t \<Rightarrow>
          (case json_get item ''link'' JNull of
             Inl e \<Rightarrow> Inl e
           | Inr u \<Rightarrow>
               (case json_get item ''snippet'' JNull of
                  Inl e \<Rightarrow> Inl e
                | Inr c \<Rightarrow>
                    collect_results items
                      (results @ [\<lparr>title = t, url = u, content = c\<rparr>]))))"

text \<open>What \<open>invoke\<close> does with the decoded body \<open>data\<close>.\<close>

definition organic_results :: "int \<Rightarrow> json \<Rightarrow> exn + search_result list" where
  "organic_results k data =
     (case json_get data ''organic'' (JArr []) of
        Inl e \<Rightarrow> Inl e
      | Inr organic \<Rightarrow>
          (case json_slice_to organic k of
             Inl e \<Rightarrow> Inl e
           | Inr items \<Rightarrow> collect_results items []))"

definition SerperSearchTool_invoke ::
  "collaborators \<Rightarrow> int \<Rightarrow> string \<Rightarrow> call list \<Rightarrow> (exn + search_result list) \<times> call list" where
  "SerperSearchTool_invoke env k q log =
     (case http_post env log q k of
        Inl e \<Rightarrow> (Inl e, log @ [SearchCall q k])
      | Inr data \<Rightarrow> (organic_results k data, log @ [SearchCall q k]))"

subsection \<open>The stages\<close>

text \<open>
  Each stage is its \<^verbatim>\<open>try\<close> body, which raises or returns the value the stage keeps,
  and the function itself, which builds the new state from the outcome
  (\<^verbatim>\<open>{**state, ...}\<close>) and has made its calls by then.
\<close>

definition query_analyser_try ::
  "collaborators \<Rightarrow> limits \<Rightarrow> ResearchState \<Rightarrow> call list \<Rightarrow> exn + SearchQuery list" where
  "query_analyser_try env cfg state log =
     (case llm_invoke env log (AnalyseQuery (user_query state)) of
        Inl e \<Rightarrow> Inl e
      | Inr resp_content \<Rightarrow>
          (case parse_queries env resp_content of
             Inl e \<Rightarrow> Inl e
           | Inr queries \<Rightarrow> Inr (capped (query_cap cfg) queries)))"

definition query_analyser ::
  "collaborators \<Rightarrow> limits \<Rightarrow> ResearchState \<Rightarrow> call list \<Rightarrow> ResearchState \<times> call list" where
  "query_analyser env cfg state log =
     ((case query_analyser_try env cfg state log of
        Inr queries \<Rightarrow>
          state\<lparr>search_queries := map query queries, current_step := ''search_executor''\<rparr>
      | Inl e \<Rightarrow>
          state\<lparr>errors := errors state @ [''query_analyser: '' @ exn_str e],
                current_step := ''error''\<rparr>),
      log @ [LLMCall (AnalyseQuery (user_query state))])"

text \<open>The loop of \<open>search_executor\<close>: \<^verbatim>\<open>results.extend(search_tool.invoke(q))\<close>.\<close>

fun search_loop ::
  "collaborators \<Rightarrow> int \<Rightarrow> string list \<Rightarrow> search_result list \<Rightarrow> call list
     \<Rightarrow> (exn + search_result list) \<times> call list" where
  "search_loop env k [] results log = (Inr results, log)"
| "search_loop env k (q # qs) results log =
     (case SerperSearchTool_invoke env k q log of
        (Inl e, log') \<Rightarrow> (Inl e, log')
      | (Inr found, log') \<Rightarrow> search_loop env k qs (results @ found) log')"

definition search_executor ::
  "collaborators \<Rightarrow> limits \<Rightarrow> ResearchState \<Rightarrow> call list \<Rightarrow> ResearchState \<times> call list" where
  "search_executor env cfg state log =
     (case search_loop env (search_k cfg) (search_queries state) [] log of
        (Inr results, log') \<Rightarrow>
          (state\<lparr>search_results := results, current_step := ''content_synthesiser''\<rparr>, log')
      | (Inl e, log') \<Rightarrow>
          (state\<lparr>errors := errors state @ [''search_executor: '' @ exn_str e],
                 current_step := ''error''\<rparr>, log'))"

definition content_synthesiser_try ::
  "collaborators \<Rightarrow> ResearchState \<Rightarrow> call list \<Rightarrow> exn + ResearchSummary" where
  "content_synthesiser_try env state log =
     (case llm_invoke env log (Synthesise (user_query state) (search_results state)) of
        Inl e \<Rightarrow> Inl e
      | Inr resp_content \<Rightarrow> parse_summary env resp_content)"

definition content_synthesiser ::
  "collaborators \<Rightarrow> limits \<Rightarrow> ResearchState \<Rightarrow> call list \<Rightarrow> ResearchState \<times> call list" where
  "content_synthesiser env cfg state log =
     ((case content_synthesiser_try env state log of
        Inr s \<Rightarrow>
          state\<lparr>research_summary := summary s, current_step := ''follow_up_generator''\<rparr>
      | Inl e \<Rightarrow>
          state\<lparr>errors := errors state @ [''content_synthesiser: '' @ exn_str e],
                current_step := ''error''\<rparr>),
      log @ [LLMCall (Synthesise (user_query state) (search_results state))])"

definition follow_up_generator_try ::
  "collaborators \<Rightarrow> limits \<Rightarrow> ResearchState \<Rightarrow> call list \<Rightarrow> exn + FollowUpQuestion list" where
  "follow_up_generator_try env cfg state log =
     (case llm_invoke env log (FollowUps (user_query state) (research_summary state)) of
        Inl e \<Rightarrow> Inl e
      | Inr resp_content \<Rightarrow>
          (case parse_questions env resp_content of
             Inl e \<Rightarrow> Inl e
           | Inr questions \<Rightarrow> Inr (capped (follow_up_cap cfg) questions)))"

definition follow_up_generator ::
  "collaborators \<Rightarrow> limits \<Rightarrow> ResearchState \<Rightarrow> call list \<Rightarrow> ResearchState \<times> call list" where
  "follow_up_generator env cfg state log =
     ((case follow_up_generator_try env cfg state log of
        Inr questions \<Rightarrow>
          state\<lparr>follow_up_questions := map question questions, current_step := ''complete''\<rparr>
      | Inl e \<Rightarrow>
          state\<lparr>errors := errors state @ [''follow_up_generator: '' @ exn_str e],
                current_step := ''error''\<rparr>),
      log @ [LLMCall (FollowUps (user_query state) (research_summary state))])"

definition error_handler :: "ResearchState \<Rightarrow> ResearchState" where
  "error_handler state = state\<lparr>current_step := ''complete''\<rparr>"

subsection \<open>The graph and its engine\<close>

datatype target = Node string | END

type_synonym node_fn =
  "collaborators \<Rightarrow> limits \<Rightarrow> ResearchState \<Rightarrow> call list \<Rightarrow> ResearchState \<times> call list"

record graph =
  nodes :: "(string \<times> node_fn) list"
  conditional_edges :: "(string \<times> (string \<times> target) list) list"
  entry_point :: string

definition build_graph :: graph where
  "build_graph =
     \<lparr>nodes =
        [(''query_analyser'', query_analyser),
         (''search_executor'', search_executor),
         (''content_synthesiser'', content_synthesiser),
         (''follow_up_generator'', follow_up_generator),
         (''error'', \<lambda>env cfg state log. (error_handler state, log))],
      conditional_edges =
        [(''query_analyser'',
            [(''search_executor'', Node ''search_executor''), (''error'', Node ''error'')]),
         (''search_executor'',
            [(''content_synthesiser'', Node ''content_synthesiser''), (''error'', Node ''error'')]),
         (''content_synthesiser'',
            [(''follow_up_generator'', Node ''follow_up_generator''), (''error'', Node ''error'')]),
         (''follow_up_generator'', [(''complete'', END), (''error'', Node ''error'')]),
         (''error'', [(''complete'', END)])],
      entry_point = ''query_analyser''\<rparr>"

text \<open>
  The compiled graph runs one node per step: the node's function replaces the state, the
  router \<^verbatim>\<open>lambda s: s["current_step"]\<close> is looked up in the node's path map, and the run
  ends at \<open>END\<close>. A routing key outside the path map raises, and so does a run that
  has not ended when the step budget is used up. The function returns the updates in the
  order they were produced (what \<^verbatim>\<open>stream_mode="updates"\<close> yields), the outcome and the
  call log.
\<close>

fun run_graph ::
  "graph \<Rightarrow> collaborators \<Rightarrow> limits \<Rightarrow> nat \<Rightarrow> string \<Rightarrow> ResearchState \<Rightarrow> call list
     \<Rightarrow> (string \<times> ResearchState) list \<times> (exn + ResearchState) \<times> call list" where
  "run_graph g env cfg 0 node state log =
     ([], Inl (Raised ''GraphRecursionError'' ''Recursion limit reached''), log)"
| "run_graph g env cfg (Suc n) node state log =
     (case map_of (nodes g) node of
        None \<Rightarrow> ([], Inl (Raised ''KeyError'' node), log)
      | Some f \<Rightarrow>
          (case f env cfg state log of
             (state', log') \<Rightarrow>
               (case map_of (conditional_edges g) node of
                  None \<Rightarrow> ([(node, state')], Inr state', log')
                | Some path_map \<Rightarrow>
                    (case map_of path_map (current_step state') of
                       None \<Rightarrow>
                         ([(node, state')], Inl (Raised ''KeyError'' (current_step state')), log')
                     | Some END \<Rightarrow> ([(node, state')], Inr state', log')
                     | Some (Node nxt) \<Rightarrow>
                         (case run_graph g env cfg n nxt state' log' of
                            (updates, outcome, log'') \<Rightarrow>
                              ((node, state') # updates, outcome, log''))))))"

text \<open>The default step budget of the graph library.\<close>

definition recursion_limit :: nat where
  "recursion_limit = 25"

definition stream ::
  "graph \<Rightarrow> collaborators \<Rightarrow> limits \<Rightarrow> ResearchState \<Rightarrow> call list
     \<Rightarrow> (string \<times> ResearchState) list \<times> (exn + ResearchState) \<times> call list" where
  "stream g env cfg state log = run_graph g env cfg recursion_limit (entry_point g) state log"

definition invoke ::
  "graph \<Rightarrow> collaborators \<Rightarrow> limits \<Rightarrow> ResearchState \<Rightarrow> call list
     \<Rightarrow> (exn + ResearchState) \<times> call list" where
  "invoke g env cfg state log = snd (stream g env cfg state log)"

subsection \<open>The two top-level runs\<close>

definition initial_state :: "string \<Rightarrow> ResearchState" where
  "initial_state q =
     \<lparr>user_query = q, search_queries = [], search_results = [], research_summary = [],
      follow_up_questions = [], current_step = ''query_analyser'', errors = []\<rparr>"

text \<open>
  The returned dict. \<^verbatim>\<open>main.py\<close> adds the key \<^verbatim>\<open>progress\<close>, always the empty list;
  \<^verbatim>\<open>agents.py\<close> has no such key.
\<close>

record workflow_result =
  original_query :: string
  result_search_queries :: "string list"
  result_research_summary :: string
  result_follow_up_questions :: "string list"
  result_errors :: "string list"
  progress :: "string list option"

definition result_of :: "ResearchState \<Rightarrow> string list option \<Rightarrow> workflow_result" where
  "result_of final_state p =
     \<lparr>original_query = user_query final_state,
      result_search_queries = search_queries final_state,
      result_research_summary = research_summary final_state,
      result_follow_up_questions = follow_up_questions final_state,
      result_errors = errors final_state,
      progress = p\<rparr>"

text \<open>
  \<^verbatim>\<open>agents.py\<close>: the graph is run to its end by \<^verbatim>\<open>wf.stream\<close>, whose updates are only
  printed, and then run again from the same initial state by \<^verbatim>\<open>wf.invoke\<close>.
\<close>

definition agents_run_research_workflow ::
  "collaborators \<Rightarrow> string \<Rightarrow> call list \<Rightarrow> (exn + workflow_result) \<times> call list" where
  "agents_run_research_workflow env q log =
     (case stream build_graph env agents_limits (initial_state q) log of
        (updates, Inl e, log1) \<Rightarrow> (Inl e, log1)
      | (updates, Inr streamed, log1) \<Rightarrow>
          (case invoke build_graph env agents_limits (initial_state q) log1 of
             (Inl e, log2) \<Rightarrow> (Inl e, log2)
           | (Inr final_state, log2) \<Rightarrow> (Inr (result_of final_state None), log2)))"

text \<open>\<^verbatim>\<open>main.py\<close>: one \<^verbatim>\<open>wf.invoke\<close>.\<close>

definition main_run_research_workflow ::
  "collaborators \<Rightarrow> string \<Rightarrow> call list \<Rightarrow> (exn + workflow_result) \<times> call list" where
  "main_run_research_workflow env q log =
     (case invoke build_graph env main_limits (initial_state q) log of
        (Inl e, log1) \<Rightarrow> (Inl e, log1)
      | (Inr final_state, log1) \<Rightarrow> (Inr (result_of final_state (Some [])), log1))"

subsection \<open>Scripted collaborators\<close>

text \<open>
  Collaborators for closed instances: the chat model always answers, the parsers and the
  search endpoint answer as scripted, independently of the call log.
\<close>

definition scripted ::
  "(exn + SearchQuery list) \<Rightarrow> (string \<Rightarrow> exn + json) \<Rightarrow> (exn + ResearchSummary)
     \<Rightarrow> (exn + FollowUpQuestion list) \<Rightarrow> collaborators" where
  "scripted qs web sm fs =
     \<lparr>llm_invoke = (\<lambda>log req. Inr ''{}''),
      parse_queries = (\<lambda>text. qs),
      parse_summary = (\<lambda>text. sm),
      parse_questions = (\<lambda>text. fs),
      http_post = (\<lambda>log q k. web q)\<rparr>"

definition hit :: "string \<Rightarrow> json" where
  "hit t =
     JObj [(''title'', JStr t), (''link'', JStr (''https://example.org/'' @ t)),
           (''snippet'', JStr ''text'')]"

definition found :: "string \<Rightarrow> search_result" where
  "found t =
     \<lparr>title = JStr t, url = JStr (''https://example.org/'' @ t), content = JStr ''text''\<rparr>"

definition demo_web :: "string \<Rightarrow> exn + json" where
  "demo_web q =
     (if q = ''q1'' then Inr (JObj [(''organic'', JArr [hit ''r1a'', hit ''r1b''])])
      else if q = ''q2'' then Inr (JObj [(''organic'', JArr [hit ''r2a''])])
      else Inl (Raised ''HTTPError'' ''503 Server Error''))"

definition demo_queries :: "SearchQuery list" where
  "demo_queries = [SearchQuery ''q1'' ''first'', SearchQuery ''q2'' ''second'']"

definition four_queries :: "SearchQuery list" where
  "four_queries =
     [SearchQuery ''q1'' ''first'', SearchQuery ''q2'' ''second'', SearchQuery ''q3'' ''third'',
      SearchQuery ''q4'' ''fourth'']"

text \<open>Bodies of the search endpoint: \<open>organic\<close> null; no \<open>organic\<close>; items lacking keys.\<close>

definition null_organic_web :: "string \<Rightarrow> exn + json" where
  "null_organic_web q = Inr (JObj [(''organic'', JNull)])"

definition sparse_web :: "string \<Rightarrow> exn + json" where
  "sparse_web q =
     (if q = ''none'' then Inr (JObj [(''searchParameters'', JObj [(''q'', JStr q)])])
      else Inr (JObj [(''organic'',
             JArr [JObj [(''title'', JStr ''a''), (''position'', JNum 1)],
                   JObj [(''link'', JStr ''u''), (''snippet'', JStr ''s'')],
                   JObj []])]))"

definition demo_summary :: ResearchSummary where
  "demo_summary = ResearchSummary ''Photosynthesis converts light to chemical energy.'' [] []"

definition demo_questions :: "FollowUpQuestion list" where
  "demo_questions = [FollowUpQuestion ''f1'' ''why'', FollowUpQuestion ''f2'' ''why'']"

definition parse_error :: exn where
  "parse_error = Raised ''OutputParserException'' ''Failed to parse''"

text \<open>
  A chat model whose first call of all fails in transport and whose later calls answer.
\<close>

definition flaky_llm :: "call list \<Rightarrow> llm_request \<Rightarrow> exn + string" where
  "flaky_llm log req =
     (case log of
        [] \<Rightarrow> Inl (Raised ''APIConnectionError'' ''Connection error.'')
      | c # cs \<Rightarrow> Inr ''{}'')"

definition flaky :: collaborators where
  "flaky =
     (scripted (Inr demo_queries) demo_web (Inr demo_summary) (Inr demo_questions))
       \<lparr>llm_invoke := flaky_llm\<rparr>"

subsection \<open>Notation for the proofs\<close>

text \<open>The state an \<^verbatim>\<open>except\<close> branch returns.\<close>

definition failed :: "string \<Rightarrow> exn \<Rightarrow> ResearchState \<Rightarrow> ResearchState" where
  "failed nm e state =
     state\<lparr>errors := errors state @ [nm @ '': '' @ exn_str e], current_step := ''error''\<rparr>"

text \<open>The entry that \<open>invoke\<close> builds from an item that is a dict.\<close>

definition entry_of :: "(string \<times> json) list \<Rightarrow> search_result" where
  "entry_of item =
     \<lparr>title = (case map_of item ''title'' of None \<Rightarrow> JNull | Some v \<Rightarrow> v),
      url = (case map_of item ''link'' of None \<Rightarrow> JNull | Some v \<Rightarrow> v),
      content = (case map_of item ''snippet'' of None \<Rightarrow> JNull | Some v \<Rightarrow> v)\<rparr>"

text \<open>An update put before the updates of the rest of a run.\<close>

definition then_run ::
  "string \<times> ResearchState
     \<Rightarrow> (string \<times> ResearchState) list \<times> (exn + ResearchState) \<times> call list
     \<Rightarrow> (string \<times> ResearchState) list \<times> (exn + ResearchState) \<times> call list" where
  "then_run u r = (case r of (updates, outcome, log) \<Rightarrow> (u # updates, outcome, log))"

section \<open>One step of the graph at each node\<close>

lemma run_error:
  "run_graph build_graph env cfg (Suc n) ''error'' st log =
     ([(''error'', st\<lparr>current_step := ''complete''\<rparr>)],
      Inr (st\<lparr>current_step := ''complete''\<rparr>), log)"
  by (simp add: build_graph_def error_handler_def)

lemma run_query_analyser:
  "run_graph build_graph env cfg (Suc n) ''query_analyser'' st log =
     (case query_analyser_try env cfg st log of
        Inr qs \<Rightarrow>
          then_run
            (''query_analyser'',
             st\<lparr>search_queries := map query qs, current_step := ''search_executor''\<rparr>)
            (run_graph build_graph env cfg n ''search_executor''
               (st\<lparr>search_queries := map query qs, current_step := ''search_executor''\<rparr>)
               (log @ [LLMCall (AnalyseQuery (user_query st))]))
      | Inl e \<Rightarrow>
          then_run (''query_analyser'', failed ''query_analyser'' e st)
            (run_graph build_graph env cfg n ''error'' (failed ''query_analyser'' e st)
               (log @ [LLMCall (AnalyseQuery (user_query st))])))"
  by (simp add: build_graph_def query_analyser_def failed_def then_run_def split: sum.splits)

lemma run_search_executor:
  "run_graph build_graph env cfg (Suc n) ''search_executor'' st log =
     (case search_loop env (search_k cfg) (search_queries st) [] log of
        (Inr rs, log') \<Rightarrow>
          then_run
            (''search_executor'',
             st\<lparr>search_results := rs, current_step := ''content_synthesiser''\<rparr>)
            (run_graph build_graph env cfg n ''content_synthesiser''
               (st\<lparr>search_results := rs, current_step := ''content_synthesiser''\<rparr>) log')
      | (Inl e, log') \<Rightarrow>
          then_run (''search_executor'', failed ''search_executor'' e st)
            (run_graph build_graph env cfg n ''error'' (failed ''search_executor'' e st) log'))"
  by (simp add: build_graph_def search_executor_def failed_def then_run_def
      split: sum.splits prod.splits)

lemma run_content_synthesiser:
  "run_graph build_graph env cfg (Suc n) ''content_synthesiser'' st log =
     (case content_synthesiser_try env st log of
        Inr sm \<Rightarrow>
          then_run
            (''content_synthesiser'',
             st\<lparr>research_summary := summary sm, current_step := ''follow_up_generator''\<rparr>)
            (run_graph build_graph env cfg n ''follow_up_generator''
               (st\<lparr>research_summary := summary sm, current_step := ''follow_up_generator''\<rparr>)
               (log @ [LLMCall (Synthesise (user_query st) (search_results st))]))
      | Inl e \<Rightarrow>
          then_run (''content_synthesiser'', failed ''content_synthesiser'' e st)
            (run_graph build_graph env cfg n ''error'' (failed ''content_synthesiser'' e st)
               (log @ [LLMCall (Synthesise (user_query st) (search_results st))])))"
  by (simp add: build_graph_def content_synthesiser_def failed_def then_run_def
      split: sum.splits)

lemma run_follow_up_generator:
  "run_graph build_graph env cfg (Suc n) ''follow_up_generator'' st log =
     (case follow_up_generator_try env cfg st log of
        Inr fs \<Rightarrow>
          ([(''follow_up_generator'',
             st\<lparr>follow_up_questions := map question fs, current_step := ''complete''\<rparr>)],
           Inr (st\<lparr>follow_up_questions := map question fs, current_step := ''complete''\<rparr>),
           log @ [LLMCall (FollowUps (user_query st) (research_summary st))])
      | Inl e \<Rightarrow>
          then_run (''follow_up_generator'', failed ''follow_up_generator'' e st)
            (run_graph build_graph env cfg n ''error'' (failed ''follow_up_generator'' e st)
               (log @ [LLMCall (FollowUps (user_query st) (research_summary st))])))"
  by (simp add: build_graph_def follow_up_generator_def failed_def then_run_def
      split: sum.splits)

lemmas run_steps =
  run_query_analyser run_search_executor run_content_synthesiser run_follow_up_generator
  run_error

lemma recursion_limit_unfold: "recursion_limit = Suc (Suc (Suc (Suc (Suc 20))))"
  by (simp add: recursion_limit_def)

lemma stream_unfold:
  "stream build_graph env cfg st log =
     run_graph build_graph env cfg (Suc (Suc (Suc (Suc (Suc 20))))) ''query_analyser'' st log"
  by (simp only: stream_def recursion_limit_unfold) (simp add: build_graph_def)

section \<open>Every run of the graph ends at the complete tag\<close>

lemma run_graph_total:
  "\<exists>ups final log'.
     run_graph build_graph env cfg (Suc (Suc (Suc (Suc (Suc n))))) ''query_analyser''
       (initial_state q) log = (ups, Inr final, log')
     \<and> current_step final = ''complete''
     \<and> user_query final = q
     \<and> length (errors final) \<le> 1"
  by (simp add: run_steps then_run_def failed_def initial_state_def
      del: run_graph.simps split: sum.splits prod.splits)

lemma stream_total:
  "\<exists>ups final log'.
     stream build_graph env cfg (initial_state q) log = (ups, Inr final, log')
     \<and> current_step final = ''complete''
     \<and> user_query final = q
     \<and> length (errors final) \<le> 1"
  unfolding stream_unfold by (rule run_graph_total)

lemma invoke_total:
  "\<exists>final log'.
     invoke build_graph env cfg (initial_state q) log = (Inr final, log')
     \<and> current_step final = ''complete''
     \<and> user_query final = q
     \<and> length (errors final) \<le> 1"
  using stream_total [of env cfg q log] by (auto simp: invoke_def)

section \<open>The errors list\<close>

text \<open>
  Claim C9. In every run the final \<open>errors\<close> list has at most one entry: this holds
  for the final state of \<open>invoke\<close> from the initial state under either set of
  limits, and for the \<open>errors\<close> of the result that either
  \<^verbatim>\<open>run_research_workflow\<close> returns.
\<close>

theorem errors_at_most_one:
  "(\<exists>final log'.
      invoke build_graph env cfg (initial_state q) log = (Inr final, log')
      \<and> length (errors final) \<le> 1)
   \<and> (\<exists>r log'.
      main_run_research_workflow env q log = (Inr r, log') \<and> length (result_errors r) \<le> 1)
   \<and> (\<exists>r log'.
      agents_run_research_workflow env q log = (Inr r, log') \<and> length (result_errors r) \<le> 1)"
proof (intro conjI)
  show "\<exists>final log'.
      invoke build_graph env cfg (initial_state q) log = (Inr final, log')
      \<and> length (errors final) \<le> 1"
    using invoke_total [of env cfg q log] by blast
next
  obtain final log' where
    "invoke build_graph env main_limits (initial_state q) log = (Inr final, log')"
    "length (errors final) \<le> 1"
    using invoke_total by blast
  then show "\<exists>r log'.
      main_run_research_workflow env q log = (Inr r, log') \<and> length (result_errors r) \<le> 1"
    by (simp add: main_run_research_workflow_def result_of_def)
next
  obtain updates streamed log1 where
    s: "stream build_graph env agents_limits (initial_state q) log = (updates, Inr streamed, log1)"
    using stream_total by blast
  obtain final log2 where
    i: "invoke build_graph env agents_limits (initial_state q) log1 = (Inr final, log2)"
      "length (errors final) \<le> 1"
    using invoke_total by blast
  from s i show "\<exists>r log'.
      agents_run_research_workflow env q log = (Inr r, log') \<and> length (result_errors r) \<le> 1"
    by (simp add: agents_run_research_workflow_def result_of_def)
qed

section \<open>The question\<close>

text \<open>
  Claim C8. No stage changes \<open>user_query\<close>: the four stages and the error handler
  return a state with the \<open>user_query\<close> they were given, the initial state holds the
  question, and the \<open>original_query\<close> of the result of either
  \<^verbatim>\<open>run_research_workflow\<close> is the question passed in.
\<close>

theorem user_query_never_mutated:
  "user_query (fst (query_analyser env cfg st log)) = user_query st
   \<and> user_query (fst (search_executor env cfg st log)) = user_query st
   \<and> user_query (fst (content_synthesiser env cfg st log)) = user_query st
   \<and> user_query (fst (follow_up_generator env cfg st log)) = user_query st
   \<and> user_query (error_handler st) = user_query st
   \<and> user_query (initial_state q) = q
   \<and> (\<exists>r log'. main_run_research_workflow env q log = (Inr r, log') \<and> original_query r = q)
   \<and> (\<exists>r log'. agents_run_research_workflow env q log = (Inr r, log') \<and> original_query r = q)"
proof (intro conjI)
  show "user_query (fst (query_analyser env cfg st log)) = user_query st"
    by (simp add: query_analyser_def split: sum.splits)
  show "user_query (fst (search_executor env cfg st log)) = user_query st"
    by (simp add: search_executor_def split: sum.splits prod.splits)
  show "user_query (fst (content_synthesiser env cfg st log)) = user_query st"
    by (simp add: content_synthesiser_def split: sum.splits)
  show "user_query (fst (follow_up_generator env cfg st log)) = user_query st"
    by (simp add: follow_up_generator_def split: sum.splits)
  show "user_query (error_handler st) = user_query st"
    by (simp add: error_handler_def)
  show "user_query (initial_state q) = q"
    by (simp add: initial_state_def)
next
  obtain final log' where
    "invoke build_graph env main_limits (initial_state q) log = (Inr final, log')"
    "user_query final = q"
    using invoke_total by blast
  then show "\<exists>r log'.
      main_run_research_workflow env q log = (Inr r, log') \<and> original_query r = q"
    by (simp add: main_run_research_workflow_def result_of_def)
next
  obtain updates streamed log1 where
    s: "stream build_graph env agents_limits (initial_state q) log = (updates, Inr streamed, log1)"
    using stream_total by blast
  obtain final log2 where
    i: "invoke build_graph env agents_limits (initial_state q) log1 = (Inr final, log2)"
      "user_query final = q"
    using invoke_total by blast
  from s i show "\<exists>r log'.
      agents_run_research_workflow env q log = (Inr r, log') \<and> original_query r = q"
    by (simp add: agents_run_research_workflow_def result_of_def)
qed

section \<open>The error handler\<close>

text \<open>
  Claim C6. The error handler changes \<open>current_step\<close> to \<open>complete\<close> and nothing
  else, so \<open>errors\<close> is as it was; the only entry of its path map sends
  \<open>complete\<close> to \<open>END\<close>, so a run that is at the node \<open>error\<close> makes this one
  update, ends with that state and calls no collaborator. Every stage's path map sends
  the tag \<open>error\<close> to that node.
\<close>

theorem error_handler_only_completes:
  "error_handler st = st\<lparr>current_step := ''complete''\<rparr>
   \<and> errors (error_handler st) = errors st
   \<and> map_of (conditional_edges build_graph) ''error'' = Some [(''complete'', END)]
   \<and> run_graph build_graph env cfg (Suc n) ''error'' st log =
       ([(''error'', st\<lparr>current_step := ''complete''\<rparr>)],
        Inr (st\<lparr>current_step := ''complete''\<rparr>), log)
   \<and> Option.bind (map_of (conditional_edges build_graph) ''query_analyser'')
        (\<lambda>path_map. map_of path_map ''error'') = Some (Node ''error'')
   \<and> Option.bind (map_of (conditional_edges build_graph) ''search_executor'')
        (\<lambda>path_map. map_of path_map ''error'') = Some (Node ''error'')
   \<and> Option.bind (map_of (conditional_edges build_graph) ''content_synthesiser'')
        (\<lambda>path_map. map_of path_map ''error'') = Some (Node ''error'')
   \<and> Option.bind (map_of (conditional_edges build_graph) ''follow_up_generator'')
        (\<lambda>path_map. map_of path_map ''error'') = Some (Node ''error'')"
proof (intro conjI)
  show "error_handler st = st\<lparr>current_step := ''complete''\<rparr>"
    by (simp add: error_handler_def)
  show "errors (error_handler st) = errors st"
    by (simp add: error_handler_def)
  show "run_graph build_graph env cfg (Suc n) ''error'' st log =
       ([(''error'', st\<lparr>current_step := ''complete''\<rparr>)],
        Inr (st\<lparr>current_step := ''complete''\<rparr>), log)"
    by (rule run_error)
qed (simp_all add: build_graph_def)

section \<open>The search stage\<close>

lemma search_loop_results:
  "search_loop env k qs results log =
     (case search_loop env k qs [] log of
        (Inl e, log') \<Rightarrow> (Inl e, log')
      | (Inr rs, log') \<Rightarrow> (Inr (results @ rs), log'))"
proof (induction qs arbitrary: results log)
  case Nil
  show ?case by simp
next
  case (Cons q qs)
  show ?case
  proof (cases "SerperSearchTool_invoke env k q log")
    case (Pair r log1)
    show ?thesis
    proof (cases r)
      case (Inl e)
      with Pair show ?thesis by simp
    next
      case (Inr found)
      have "search_loop env k (q # qs) results log = search_loop env k qs (results @ found) log1"
        using Pair Inr by simp
      also have "\<dots> =
          (case search_loop env k qs [] log1 of
             (Inl e, log') \<Rightarrow> (Inl e, log')
           | (Inr rs, log') \<Rightarrow> (Inr ((results @ found) @ rs), log'))"
        by (rule Cons.IH)
      finally have lhs: "search_loop env k (q # qs) results log =
          (case search_loop env k qs [] log1 of
             (Inl e, log') \<Rightarrow> (Inl e, log')
           | (Inr rs, log') \<Rightarrow> (Inr (results @ found @ rs), log'))"
        by (simp split: prod.splits sum.splits)
      have "search_loop env k (q # qs) [] log = search_loop env k qs found log1"
        using Pair Inr by simp
      also have "\<dots> =
          (case search_loop env k qs [] log1 of
             (Inl e, log') \<Rightarrow> (Inl e, log')
           | (Inr rs, log') \<Rightarrow> (Inr (found @ rs), log'))"
        by (rule Cons.IH)
      finally show ?thesis
        unfolding lhs by (simp split: prod.splits sum.splits)
    qed
  qed
qed

lemma search_loop_append:
  "search_loop env k (qs1 @ qs2) results log =
     (case search_loop env k qs1 results log of
        (Inl e, log') \<Rightarrow> (Inl e, log')
      | (Inr rs, log') \<Rightarrow> search_loop env k qs2 rs log')"
  by (induction qs1 arbitrary: results log) (simp_all split: prod.splits sum.splits)

text \<open>
  Claim C4. \<open>search_executor\<close> is all-or-nothing. Let the queries be \<open>earlier\<close>,
  then \<open>q\<close>, then \<open>later\<close>; let the searches for \<open>earlier\<close> all return, with
  results \<open>kept\<close>, and let the search for \<open>q\<close> raise \<open>e\<close>. Then the stage
  returns the state it was given with \<open>"search_executor: "\<close> and the text of \<open>e\<close>
  appended to \<open>errors\<close> and with \<open>current_step\<close> set to \<open>error\<close>:
  \<open>search_results\<close> is what it was, none of \<open>kept\<close> is retained, and no search
  for \<open>later\<close> is made.
\<close>

theorem search_executor_all_or_nothing:
  assumes "search_queries st = earlier @ q # later"
    and "search_loop env (search_k cfg) earlier [] log = (Inr kept, log1)"
    and "SerperSearchTool_invoke env (search_k cfg) q log1 = (Inl e, log2)"
  shows "search_executor env cfg st log =
           (st\<lparr>errors := errors st @ [''search_executor: '' @ exn_str e],
               current_step := ''error''\<rparr>, log2)
         \<and> search_results (fst (search_executor env cfg st log)) = search_results st"
  using assms by (simp add: search_executor_def search_loop_append)

theorem search_executor_all_or_nothing_witness:
  "search_queries ((initial_state ''Q'')\<lparr>search_queries := [''q1'', ''q3'', ''q2'']\<rparr>)
     = [''q1''] @ ''q3'' # [''q2'']
   \<and> search_loop (scripted (Inr demo_queries) demo_web (Inr demo_summary) (Inr demo_questions))
        (search_k main_limits) [''q1''] [] []
      = (Inr [found ''r1a'', found ''r1b''], [SearchCall ''q1'' 5])
   \<and> SerperSearchTool_invoke
        (scripted (Inr demo_queries) demo_web (Inr demo_summary) (Inr demo_questions))
        (search_k main_limits) ''q3'' [SearchCall ''q1'' 5]
      = (Inl (Raised ''HTTPError'' ''503 Server Error''), [SearchCall ''q1'' 5, SearchCall ''q3'' 5])
   \<and> search_executor (scripted (Inr demo_queries) demo_web (Inr demo_summary) (Inr demo_questions))
        main_limits ((initial_state ''Q'')\<lparr>search_queries := [''q1'', ''q3'', ''q2'']\<rparr>) []
      = (\<lparr>user_query = ''Q'', search_queries = [''q1'', ''q3'', ''q2''], search_results = [],
          research_summary = [], follow_up_questions = [], current_step = ''error'',
          errors = [''search_executor: 503 Server Error'']\<rparr>,
         [SearchCall ''q1'' 5, SearchCall ''q3'' 5])"
proof -
  let ?env = "scripted (Inr demo_queries) demo_web (Inr demo_summary) (Inr demo_questions)"
  let ?st = "(initial_state ''Q'')\<lparr>search_queries := [''q1'', ''q3'', ''q2'']\<rparr>"
  have h1: "search_queries ?st = [''q1''] @ ''q3'' # [''q2'']"
    by simp
  have h2: "search_loop ?env (search_k main_limits) [''q1''] [] []
      = (Inr [found ''r1a'', found ''r1b''], [SearchCall ''q1'' 5])"
    by (simp add: scripted_def demo_web_def main_limits_def SerperSearchTool_invoke_def
        organic_results_def py_slice_to_def hit_def found_def)
  have h3: "SerperSearchTool_invoke ?env (search_k main_limits) ''q3'' [SearchCall ''q1'' 5]
      = (Inl (Raised ''HTTPError'' ''503 Server Error''), [SearchCall ''q1'' 5, SearchCall ''q3'' 5])"
    by (simp add: scripted_def demo_web_def main_limits_def SerperSearchTool_invoke_def)
  from search_executor_all_or_nothing [OF h1 h2 h3] h1 h2 h3 show ?thesis
    by (simp add: initial_state_def)
qed

lemma invoke_log: "snd (SerperSearchTool_invoke env k q log) = log @ [SearchCall q k]"
  by (simp add: SerperSearchTool_invoke_def split: sum.splits)

lemma search_loop_concat:
  assumes "length rss = length qs"
    and "\<forall>i<length qs.
           fst (SerperSearchTool_invoke env k (qs ! i)
                  (log @ map (\<lambda>q. SearchCall q k) (take i qs))) = Inr (rss ! i)"
  shows "search_loop env k qs results log =
           (Inr (results @ concat rss), log @ map (\<lambda>q. SearchCall q k) qs)"
  using assms
proof (induction qs arbitrary: rss log results)
  case Nil
  then show ?case by simp
next
  case (Cons q qs)
  then obtain r rs where rss: "rss = r # rs" and len: "length rs = length qs"
    by (cases rss) auto
  have "fst (SerperSearchTool_invoke env k q log) = Inr r"
    using Cons.prems(2) [rule_format, of 0] rss by simp
  then have first: "SerperSearchTool_invoke env k q log = (Inr r, log @ [SearchCall q k])"
    using invoke_log [of env k q log] by (cases "SerperSearchTool_invoke env k q log") simp
  have rest: "\<forall>i<length qs.
      fst (SerperSearchTool_invoke env k (qs ! i)
             ((log @ [SearchCall q k]) @ map (\<lambda>q. SearchCall q k) (take i qs))) = Inr (rs ! i)"
  proof (intro allI impI)
    fix i assume "i < length qs"
    then show "fst (SerperSearchTool_invoke env k (qs ! i)
             ((log @ [SearchCall q k]) @ map (\<lambda>q. SearchCall q k) (take i qs))) = Inr (rs ! i)"
      using Cons.prems(2) [rule_format, of "Suc i"] rss by simp
  qed
  have "search_loop env k qs (results @ r) (log @ [SearchCall q k]) =
      (Inr ((results @ r) @ concat rs),
       (log @ [SearchCall q k]) @ map (\<lambda>q. SearchCall q k) qs)"
    using len rest by (rule Cons.IH)
  with first rss show ?case by simp
qed

lemma search_executor_concat:
  assumes "length rss = length (search_queries st)"
    and "\<forall>i<length (search_queries st).
           fst (SerperSearchTool_invoke env (search_k cfg) (search_queries st ! i)
                  (log @ map (\<lambda>q. SearchCall q (search_k cfg)) (take i (search_queries st))))
             = Inr (rss ! i)"
  shows "search_executor env cfg st log =
           (st\<lparr>search_results := concat rss, current_step := ''content_synthesiser''\<rparr>,
            log @ map (\<lambda>q. SearchCall q (search_k cfg)) (search_queries st))"
  using search_loop_concat [OF assms, of "[]"] by (simp add: search_executor_def)

text \<open>
  Claim C5. \<open>search_executor\<close> concatenates in query order. If the queries are
  \<open>[q1, q2]\<close>, the search for \<open>q1\<close> returns the list \<open>r1\<close> and the search for
  \<open>q2\<close>, made after it, returns the list \<open>r2\<close>, then \<open>search_results\<close> becomes
  \<open>r1 @ r2\<close>, every result of either search kept and all of \<open>r1\<close> before all of
  \<open>r2\<close>, and the stage advances to \<open>content_synthesiser\<close>. The instance below is
  the one of the specification: \<open>[r1a, r1b]\<close> and \<open>[r2a]\<close> give
  \<open>[r1a, r1b, r2a]\<close>. For any number of queries, \<open>search_executor_concat\<close> above
  gives the concatenation of the lists the searches returned, in the order of the queries.
\<close>

theorem search_executor_query_major:
  assumes "search_queries st = [q1, q2]"
    and "SerperSearchTool_invoke env (search_k cfg) q1 log = (Inr r1, log1)"
    and "SerperSearchTool_invoke env (search_k cfg) q2 log1 = (Inr r2, log2)"
  shows "search_executor env cfg st log =
           (st\<lparr>search_results := r1 @ r2, current_step := ''content_synthesiser''\<rparr>, log2)"
  using assms by (simp add: search_executor_def)

theorem search_executor_query_major_witness:
  "search_queries ((initial_state ''Q'')\<lparr>search_queries := [''q1'', ''q2'']\<rparr>) = [''q1'', ''q2'']
   \<and> SerperSearchTool_invoke
        (scripted (Inr demo_queries) demo_web (Inr demo_summary) (Inr demo_questions))
        (search_k agents_limits) ''q1'' []
      = (Inr [found ''r1a'', found ''r1b''], [SearchCall ''q1'' 10])
   \<and> SerperSearchTool_invoke
        (scripted (Inr demo_queries) demo_web (Inr demo_summary) (Inr demo_questions))
        (search_k agents_limits) ''q2'' [SearchCall ''q1'' 10]
      = (Inr [found ''r2a''], [SearchCall ''q1'' 10, SearchCall ''q2'' 10])
   \<and> search_executor (scripted (Inr demo_queries) demo_web (Inr demo_summary) (Inr demo_questions))
        agents_limits ((initial_state ''Q'')\<lparr>search_queries := [''q1'', ''q2'']\<rparr>) []
      = (\<lparr>user_query = ''Q'', search_queries = [''q1'', ''q2''],
          search_results = [found ''r1a'', found ''r1b'', found ''r2a''],
          research_summary = [], follow_up_questions = [],
          current_step = ''content_synthesiser'', errors = []\<rparr>,
         [SearchCall ''q1'' 10, SearchCall ''q2'' 10])"
proof -
  let ?env = "scripted (Inr demo_queries) demo_web (Inr demo_summary) (Inr demo_questions)"
  let ?st = "(initial_state ''Q'')\<lparr>search_queries := [''q1'', ''q2'']\<rparr>"
  have h1: "search_queries ?st = [''q1'', ''q2'']"
    by simp
  have h2: "SerperSearchTool_invoke ?env (search_k agents_limits) ''q1'' []
      = (Inr [found ''r1a'', found ''r1b''], [SearchCall ''q1'' 10])"
    by (simp add: scripted_def demo_web_def agents_limits_def SerperSearchTool_invoke_def
        organic_results_def py_slice_to_def hit_def found_def)
  have h3: "SerperSearchTool_invoke ?env (search_k agents_limits) ''q2'' [SearchCall ''q1'' 10]
      = (Inr [found ''r2a''], [SearchCall ''q1'' 10, SearchCall ''q2'' 10])"
    by (simp add: scripted_def demo_web_def agents_limits_def SerperSearchTool_invoke_def
        organic_results_def py_slice_to_def hit_def found_def)
  from search_executor_query_major [OF h1 h2 h3] h1 h2 h3 show ?thesis
    by (simp add: initial_state_def)
qed

section \<open>A failing stage\<close>

lemma invoke_unfold:
  "fst (invoke build_graph env cfg st log) =
     fst (snd (run_graph build_graph env cfg (Suc (Suc (Suc (Suc (Suc 20))))) ''query_analyser'' st log))"
  by (simp only: invoke_def stream_unfold)

lemma fails_in_query_analyser:
  assumes "query_analyser_try env cfg (initial_state q) log = Inl e"
  shows "fst (snd (run_graph build_graph env cfg (Suc (Suc n)) ''query_analyser''
            (initial_state q) log)) =
         Inr \<lparr>user_query = q, search_queries = [], search_results = [], research_summary = [],
              follow_up_questions = [], current_step = ''complete'',
              errors = [''query_analyser: '' @ exn_str e]\<rparr>"
  using assms
  by (simp add: run_steps then_run_def failed_def initial_state_def del: run_graph.simps)

lemma fails_in_search_executor:
  assumes "query_analyser_try env cfg (initial_state q) log = Inr qs"
    and "search_loop env (search_k cfg) (map query qs) [] (log @ [LLMCall (AnalyseQuery q)])
           = (Inl e, log2)"
  shows "fst (snd (run_graph build_graph env cfg (Suc (Suc (Suc n))) ''query_analyser''
            (initial_state q) log)) =
         Inr \<lparr>user_query = q, search_queries = map query qs, search_results = [],
              research_summary = [], follow_up_questions = [], current_step = ''complete'',
              errors = [''search_executor: '' @ exn_str e]\<rparr>"
  using assms
  by (simp add: run_steps then_run_def failed_def initial_state_def del: run_graph.simps)

lemma fails_in_content_synthesiser:
  assumes "query_analyser_try env cfg (initial_state q) log = Inr qs"
    and "search_loop env (search_k cfg) (map query qs) [] (log @ [LLMCall (AnalyseQuery q)])
           = (Inr rs, log2)"
    and "content_synthesiser_try env
           \<lparr>user_query = q, search_queries = map query qs, search_results = rs,
            research_summary = [], follow_up_questions = [],
            current_step = ''content_synthesiser'', errors = []\<rparr> log2 = Inl e"
  shows "fst (snd (run_graph build_graph env cfg (Suc (Suc (Suc (Suc n)))) ''query_analyser''
            (initial_state q) log)) =
         Inr \<lparr>user_query = q, search_queries = map query qs, search_results = rs,
              research_summary = [], follow_up_questions = [], current_step = ''complete'',
              errors = [''content_synthesiser: '' @ exn_str e]\<rparr>"
  using assms
  by (simp add: run_steps then_run_def failed_def initial_state_def del: run_graph.simps)

lemma fails_in_follow_up_generator:
  assumes "query_analyser_try env cfg (initial_state q) log = Inr qs"
    and "search_loop env (search_k cfg) (map query qs) [] (log @ [LLMCall (AnalyseQuery q)])
           = (Inr rs, log2)"
    and "content_synthesiser_try env
           \<lparr>user_query = q, search_queries = map query qs, search_results = rs,
            research_summary = [], follow_up_questions = [],
            current_step = ''content_synthesiser'', errors = []\<rparr> log2 = Inr sm"
    and "follow_up_generator_try env cfg
           \<lparr>user_query = q, search_queries = map query qs, search_results = rs,
            research_summary = summary sm, follow_up_questions = [],
            current_step = ''follow_up_generator'', errors = []\<rparr>
           (log2 @ [LLMCall (Synthesise q rs)]) = Inl e"
  shows "fst (snd (run_graph build_graph env cfg (Suc (Suc (Suc (Suc (Suc n))))) ''query_analyser''
            (initial_state q) log)) =
         Inr \<lparr>user_query = q, search_queries = map query qs, search_results = rs,
              research_summary = summary sm, follow_up_questions = [],
              current_step = ''complete'',
              errors = [''follow_up_generator: '' @ exn_str e]\<rparr>"
  using assms
  by (simp add: run_steps then_run_def failed_def initial_state_def del: run_graph.simps)

text \<open>
  Claim C3. Whichever stage is the first whose collaborator call or parse raises, at the
  state the run has reached by then, the run of the graph from the initial state returns
  a final state whose \<open>errors\<close> is the single entry made of that stage's name,
  \<open>": "\<close> and the exception's text, and in which every field set by a later stage
  still has its initial empty value. The four conjuncts are the four stages: a failure
  in \<open>query_analyser\<close>; in \<open>search_executor\<close> after the analysis returned
  \<open>qs\<close>; in \<open>content_synthesiser\<close> after the searches returned \<open>rs\<close>; in
  \<open>follow_up_generator\<close> after the synthesis returned \<open>sm\<close>.
\<close>

theorem failing_stage_final_state:
  "(query_analyser_try env cfg (initial_state q) log = Inl e \<longrightarrow>
      fst (invoke build_graph env cfg (initial_state q) log) =
        Inr \<lparr>user_query = q, search_queries = [], search_results = [], research_summary = [],
             follow_up_questions = [], current_step = ''complete'',
             errors = [''query_analyser: '' @ exn_str e]\<rparr>)
   \<and> (query_analyser_try env cfg (initial_state q) log = Inr qs
      \<and> search_loop env (search_k cfg) (map query qs) [] (log @ [LLMCall (AnalyseQuery q)])
          = (Inl e, log2) \<longrightarrow>
      fst (invoke build_graph env cfg (initial_state q) log) =
        Inr \<lparr>user_query = q, search_queries = map query qs, search_results = [],
             research_summary = [], follow_up_questions = [], current_step = ''complete'',
             errors = [''search_executor: '' @ exn_str e]\<rparr>)
   \<and> (query_analyser_try env cfg (initial_state q) log = Inr qs
      \<and> search_loop env (search_k cfg) (map query qs) [] (log @ [LLMCall (AnalyseQuery q)])
          = (Inr rs, log2)
      \<and> content_synthesiser_try env
           \<lparr>user_query = q, search_queries = map query qs, search_results = rs,
            research_summary = [], follow_up_questions = [],
            current_step = ''content_synthesiser'', errors = []\<rparr> log2 = Inl e \<longrightarrow>
      fst (invoke build_graph env cfg (initial_state q) log) =
        Inr \<lparr>user_query = q, search_queries = map query qs, search_results = rs,
             research_summary = [], follow_up_questions = [], current_step = ''complete'',
             errors = [''content_synthesiser: '' @ exn_str e]\<rparr>)
   \<and> (query_analyser_try env cfg (initial_state q) log = Inr qs
      \<and> search_loop env (search_k cfg) (map query qs) [] (log @ [LLMCall (AnalyseQuery q)])
          = (Inr rs, log2)
      \<and> content_synthesiser_try env
           \<lparr>user_query = q, search_queries = map query qs, search_results = rs,
            research_summary = [], follow_up_questions = [],
            current_step = ''content_synthesiser'', errors = []\<rparr> log2 = Inr sm
      \<and> follow_up_generator_try env cfg
           \<lparr>user_query = q, search_queries = map query qs, search_results = rs,
            research_summary = summary sm, follow_up_questions = [],
            current_step = ''follow_up_generator'', errors = []\<rparr>
           (log2 @ [LLMCall (Synthesise q rs)]) = Inl e \<longrightarrow>
      fst (invoke build_graph env cfg (initial_state q) log) =
        Inr \<lparr>user_query = q, search_queries = map query qs, search_results = rs,
             research_summary = summary sm, follow_up_questions = [],
             current_step = ''complete'',
             errors = [''follow_up_generator: '' @ exn_str e]\<rparr>)"
  unfolding invoke_unfold
  using fails_in_query_analyser [of env cfg q log e]
    fails_in_search_executor [of env cfg q log qs e log2]
    fails_in_content_synthesiser [of env cfg q log qs rs log2 e]
    fails_in_follow_up_generator [of env cfg q log qs rs log2 sm e]
  by blast


theorem failing_stage_final_state_witness:
  "(query_analyser_try
      (scripted (Inl parse_error) demo_web (Inr demo_summary) (Inr demo_questions))
      main_limits (initial_state ''Q'') [] = Inl parse_error
    \<and> fst (invoke build_graph
         (scripted (Inl parse_error) demo_web (Inr demo_summary) (Inr demo_questions))
         main_limits (initial_state ''Q'') []) =
       Inr \<lparr>user_query = ''Q'', search_queries = [], search_results = [],
            research_summary = [], follow_up_questions = [], current_step = ''complete'',
            errors = [''query_analyser: Failed to parse'']\<rparr>)
   \<and> (search_loop
      (scripted (Inr [SearchQuery ''q1'' ''first'', SearchQuery ''q3'' ''third'']) demo_web
         (Inr demo_summary) (Inr demo_questions))
      (search_k main_limits) [''q1'', ''q3''] [] [LLMCall (AnalyseQuery ''Q'')]
      = (Inl (Raised ''HTTPError'' ''503 Server Error''),
         [LLMCall (AnalyseQuery ''Q''), SearchCall ''q1'' 5, SearchCall ''q3'' 5])
    \<and> fst (invoke build_graph
         (scripted (Inr [SearchQuery ''q1'' ''first'', SearchQuery ''q3'' ''third'']) demo_web
            (Inr demo_summary) (Inr demo_questions))
         main_limits (initial_state ''Q'') []) =
       Inr \<lparr>user_query = ''Q'', search_queries = [''q1'', ''q3''], search_results = [],
            research_summary = [], follow_up_questions = [], current_step = ''complete'',
            errors = [''search_executor: 503 Server Error'']\<rparr>)
   \<and> fst (invoke build_graph
         (scripted (Inr demo_queries) demo_web (Inl parse_error) (Inr demo_questions))
         main_limits (initial_state ''Q'') []) =
       Inr \<lparr>user_query = ''Q'', search_queries = [''q1'', ''q2''],
            search_results = [found ''r1a'', found ''r1b'', found ''r2a''],
            research_summary = [], follow_up_questions = [], current_step = ''complete'',
            errors = [''content_synthesiser: Failed to parse'']\<rparr>
   \<and> fst (invoke build_graph
         (scripted (Inr demo_queries) demo_web (Inr demo_summary) (Inl parse_error))
         main_limits (initial_state ''Q'') []) =
       Inr \<lparr>user_query = ''Q'', search_queries = [''q1'', ''q2''],
            search_results = [found ''r1a'', found ''r1b'', found ''r2a''],
            research_summary = ''Photosynthesis converts light to chemical energy.'',
            follow_up_questions = [], current_step = ''complete'',
            errors = [''follow_up_generator: Failed to parse'']\<rparr>"
proof (intro conjI)
  let ?E1 = "scripted (Inl parse_error) demo_web (Inr demo_summary) (Inr demo_questions)"
  let ?E2 = "scripted (Inr [SearchQuery ''q1'' ''first'', SearchQuery ''q3'' ''third'']) demo_web
         (Inr demo_summary) (Inr demo_questions)"
  let ?E3 = "scripted (Inr demo_queries) demo_web (Inl parse_error) (Inr demo_questions)"
  let ?E4 = "scripted (Inr demo_queries) demo_web (Inr demo_summary) (Inl parse_error)"
  let ?rs = "[found ''r1a'', found ''r1b'', found ''r2a'']"
  let ?log2 = "[LLMCall (AnalyseQuery ''Q''), SearchCall ''q1'' 5, SearchCall ''q2'' 5]"
  note searching = scripted_def demo_web_def main_limits_def SerperSearchTool_invoke_def
    organic_results_def py_slice_to_def hit_def found_def
  show a1: "query_analyser_try ?E1 main_limits (initial_state ''Q'') [] = Inl parse_error"
    by (simp add: query_analyser_try_def scripted_def)
  from failing_stage_final_state
    [where env = ?E1 and cfg = main_limits and q = "''Q''" and log = "[]" and e = parse_error,
      THEN conjunct1, THEN mp, OF a1]
  show "fst (invoke build_graph ?E1 main_limits (initial_state ''Q'') []) =
       Inr \<lparr>user_query = ''Q'', search_queries = [], search_results = [],
            research_summary = [], follow_up_questions = [], current_step = ''complete'',
            errors = [''query_analyser: Failed to parse'']\<rparr>"
    by (simp add: parse_error_def)
  have a2: "query_analyser_try ?E2 main_limits (initial_state ''Q'') []
      = Inr [SearchQuery ''q1'' ''first'', SearchQuery ''q3'' ''third'']"
    by (simp add: query_analyser_try_def scripted_def main_limits_def capped_def py_slice_to_def)
  show b2: "search_loop ?E2 (search_k main_limits) [''q1'', ''q3''] [] [LLMCall (AnalyseQuery ''Q'')]
      = (Inl (Raised ''HTTPError'' ''503 Server Error''),
         [LLMCall (AnalyseQuery ''Q''), SearchCall ''q1'' 5, SearchCall ''q3'' 5])"
    by (simp add: searching)
  from failing_stage_final_state
    [where env = ?E2 and cfg = main_limits and q = "''Q''" and log = "[]"
      and qs = "[SearchQuery ''q1'' ''first'', SearchQuery ''q3'' ''third'']"
      and e = "Raised ''HTTPError'' ''503 Server Error''"
      and ?log2.0 = "[LLMCall (AnalyseQuery ''Q''), SearchCall ''q1'' 5, SearchCall ''q3'' 5]",
      THEN conjunct2, THEN conjunct1, THEN mp] a2 b2
  show "fst (invoke build_graph ?E2 main_limits (initial_state ''Q'') []) =
       Inr \<lparr>user_query = ''Q'', search_queries = [''q1'', ''q3''], search_results = [],
            research_summary = [], follow_up_questions = [], current_step = ''complete'',
            errors = [''search_executor: 503 Server Error'']\<rparr>"
    by simp
  have a3: "query_analyser_try ?E3 main_limits (initial_state ''Q'') [] = Inr demo_queries"
    by (simp add: query_analyser_try_def scripted_def main_limits_def capped_def py_slice_to_def
        demo_queries_def)
  have b3: "search_loop ?E3 (search_k main_limits) (map query demo_queries) []
      ([] @ [LLMCall (AnalyseQuery ''Q'')]) = (Inr ?rs, ?log2)"
    by (simp add: searching demo_queries_def)
  have c3: "content_synthesiser_try ?E3
       \<lparr>user_query = ''Q'', search_queries = map query demo_queries, search_results = ?rs,
        research_summary = [], follow_up_questions = [],
        current_step = ''content_synthesiser'', errors = []\<rparr> ?log2 = Inl parse_error"
    by (simp add: content_synthesiser_try_def scripted_def)
  from failing_stage_final_state
    [where env = ?E3 and cfg = main_limits and q = "''Q''" and log = "[]"
      and qs = demo_queries and e = parse_error and rs = ?rs and ?log2.0 = ?log2,
      THEN conjunct2, THEN conjunct2, THEN conjunct1, THEN mp] a3 b3 c3
  show "fst (invoke build_graph ?E3 main_limits (initial_state ''Q'') []) =
       Inr \<lparr>user_query = ''Q'', search_queries = [''q1'', ''q2''], search_results = ?rs,
            research_summary = [], follow_up_questions = [], current_step = ''complete'',
            errors = [''content_synthesiser: Failed to parse'']\<rparr>"
    by (simp add: parse_error_def demo_queries_def)
  have a4: "query_analyser_try ?E4 main_limits (initial_state ''Q'') [] = Inr demo_queries"
    by (simp add: query_analyser_try_def scripted_def main_limits_def capped_def py_slice_to_def
        demo_queries_def)
  have b4: "search_loop ?E4 (search_k main_limits) (map query demo_queries) []
      ([] @ [LLMCall (AnalyseQuery ''Q'')]) = (Inr ?rs, ?log2)"
    by (simp add: searching demo_queries_def)
  have c4: "content_synthesiser_try ?E4
       \<lparr>user_query = ''Q'', search_queries = map query demo_queries, search_results = ?rs,
        research_summary = [], follow_up_questions = [],
        current_step = ''content_synthesiser'', errors = []\<rparr> ?log2 = Inr demo_summary"
    by (simp add: content_synthesiser_try_def scripted_def)
  have d4: "follow_up_generator_try ?E4 main_limits
       \<lparr>user_query = ''Q'', search_queries = map query demo_queries, search_results = ?rs,
        research_summary = summary demo_summary, follow_up_questions = [],
        current_step = ''follow_up_generator'', errors = []\<rparr>
       (?log2 @ [LLMCall (Synthesise ''Q'' ?rs)]) = Inl parse_error"
    by (simp add: follow_up_generator_try_def scripted_def)
  from failing_stage_final_state
    [where env = ?E4 and cfg = main_limits and q = "''Q''" and log = "[]"
      and qs = demo_queries and e = parse_error and rs = ?rs and ?log2.0 = ?log2
      and sm = demo_summary,
      THEN conjunct2, THEN conjunct2, THEN conjunct2, THEN mp] a4 b4 c4 d4
  show "fst (invoke build_graph ?E4 main_limits (initial_state ''Q'') []) =
       Inr \<lparr>user_query = ''Q'', search_queries = [''q1'', ''q2''], search_results = ?rs,
            research_summary = ''Photosynthesis converts light to chemical energy.'',
            follow_up_questions = [], current_step = ''complete'',
            errors = [''follow_up_generator: Failed to parse'']\<rparr>"
    by (simp add: parse_error_def demo_queries_def demo_summary_def)
qed

section \<open>The number of queries\<close>

text \<open>
  Claim C2, as stated, fails: the stage does not fail when fewer than \<open>N\<close> queries are
  parsed. In \<^verbatim>\<open>main.py\<close> (\<open>N = 3\<close>) a response that parses to two queries makes
  \<open>query_analyser\<close> store both and advance to \<open>search_executor\<close>, with no error.
\<close>

theorem query_analyser_short_counterexample:
  "llm_invoke (scripted (Inr demo_queries) demo_web (Inr demo_summary) (Inr demo_questions)) []
       (AnalyseQuery ''Q'') = Inr ''{}''
   \<and> parse_queries (scripted (Inr demo_queries) demo_web (Inr demo_summary) (Inr demo_questions))
       ''{}'' = Inr demo_queries
   \<and> query_cap main_limits = Some 3
   \<and> length demo_queries = 2
   \<and> query_analyser (scripted (Inr demo_queries) demo_web (Inr demo_summary) (Inr demo_questions))
        main_limits (initial_state ''Q'') [] =
      (\<lparr>user_query = ''Q'', search_queries = [''q1'', ''q2''], search_results = [],
         research_summary = [], follow_up_questions = [], current_step = ''search_executor'',
         errors = []\<rparr>, [LLMCall (AnalyseQuery ''Q'')])
   \<and> current_step (fst (query_analyser
          (scripted (Inr demo_queries) demo_web (Inr demo_summary) (Inr demo_questions))
          main_limits (initial_state ''Q'') [])) \<noteq> ''error''"
  by (simp add: query_analyser_def query_analyser_try_def scripted_def main_limits_def
      capped_def py_slice_to_def demo_queries_def initial_state_def)

text \<open>
  Claim C2, amended. If the completion call returns and its response parses to the
  queries schema, \<open>query_analyser\<close> stores the query strings of the parsed queries cut
  to the slice bound and advances to \<open>search_executor\<close>, leaving \<open>errors\<close> as it
  was: with a bound \<open>N\<close> and at least \<open>N\<close> parsed queries these are exactly the
  first \<open>N\<close>; with fewer than \<open>N\<close> parsed queries they are all of them (the stage
  does not fail); with no bound (\<^verbatim>\<open>agents.py\<close>) they are all of them.
\<close>

theorem query_analyser_truncates:
  assumes "llm_invoke env log (AnalyseQuery (user_query st)) = Inr resp_content"
    and "parse_queries env resp_content = Inr queries"
  shows "query_analyser env cfg st log =
           (st\<lparr>search_queries := map query (capped (query_cap cfg) queries),
               current_step := ''search_executor''\<rparr>,
            log @ [LLMCall (AnalyseQuery (user_query st))])
         \<and> (query_cap cfg = Some (int N) \<and> N \<le> length queries \<longrightarrow>
              map query (capped (query_cap cfg) queries) = take N (map query queries)
              \<and> length (map query (capped (query_cap cfg) queries)) = N)
         \<and> (query_cap cfg = Some (int N) \<and> length queries < N \<longrightarrow>
              map query (capped (query_cap cfg) queries) = map query queries)
         \<and> (query_cap cfg = None \<longrightarrow>
              map query (capped (query_cap cfg) queries) = map query queries)"
  using assms
  by (simp add: query_analyser_def query_analyser_try_def capped_def py_slice_to_def take_map)

theorem query_analyser_truncates_witness:
  "query_analyser (scripted (Inr four_queries) demo_web (Inr demo_summary) (Inr demo_questions))
       main_limits (initial_state ''Q'') [] =
     (\<lparr>user_query = ''Q'', search_queries = [''q1'', ''q2'', ''q3''], search_results = [],
        research_summary = [], follow_up_questions = [], current_step = ''search_executor'',
        errors = []\<rparr>, [LLMCall (AnalyseQuery ''Q'')])
   \<and> query_analyser (scripted (Inr demo_queries) demo_web (Inr demo_summary) (Inr demo_questions))
       main_limits (initial_state ''Q'') [] =
     (\<lparr>user_query = ''Q'', search_queries = [''q1'', ''q2''], search_results = [],
        research_summary = [], follow_up_questions = [], current_step = ''search_executor'',
        errors = []\<rparr>, [LLMCall (AnalyseQuery ''Q'')])
   \<and> query_analyser (scripted (Inr four_queries) demo_web (Inr demo_summary) (Inr demo_questions))
       agents_limits (initial_state ''Q'') [] =
     (\<lparr>user_query = ''Q'', search_queries = [''q1'', ''q2'', ''q3'', ''q4''], search_results = [],
        research_summary = [], follow_up_questions = [], current_step = ''search_executor'',
        errors = []\<rparr>, [LLMCall (AnalyseQuery ''Q'')])"
proof (intro conjI)
  let ?E4 = "scripted (Inr four_queries) demo_web (Inr demo_summary) (Inr demo_questions)"
  let ?E2 = "scripted (Inr demo_queries) demo_web (Inr demo_summary) (Inr demo_questions)"
  have l4: "llm_invoke ?E4 [] (AnalyseQuery (user_query (initial_state ''Q''))) = Inr ''{}''"
    by (simp add: scripted_def)
  have p4: "parse_queries ?E4 ''{}'' = Inr four_queries"
    by (simp add: scripted_def)
  have l2: "llm_invoke ?E2 [] (AnalyseQuery (user_query (initial_state ''Q''))) = Inr ''{}''"
    by (simp add: scripted_def)
  have p2: "parse_queries ?E2 ''{}'' = Inr demo_queries"
    by (simp add: scripted_def)
  have long: "query_cap main_limits = Some (int 3) \<and> 3 \<le> length four_queries"
    by (simp add: main_limits_def four_queries_def)
  have short: "query_cap main_limits = Some (int 3) \<and> length demo_queries < 3"
    by (simp add: main_limits_def demo_queries_def)
  have none: "query_cap agents_limits = None"
    by (simp add: agents_limits_def)
  from query_analyser_truncates [OF l4 p4, of main_limits 3] long
  show "query_analyser ?E4 main_limits (initial_state ''Q'') [] =
     (\<lparr>user_query = ''Q'', search_queries = [''q1'', ''q2'', ''q3''], search_results = [],
        research_summary = [], follow_up_questions = [], current_step = ''search_executor'',
        errors = []\<rparr>, [LLMCall (AnalyseQuery ''Q'')])"
    by (simp add: initial_state_def four_queries_def)
  from query_analyser_truncates [OF l2 p2, of main_limits 3] short
  show "query_analyser ?E2 main_limits (initial_state ''Q'') [] =
     (\<lparr>user_query = ''Q'', search_queries = [''q1'', ''q2''], search_results = [],
        research_summary = [], follow_up_questions = [], current_step = ''search_executor'',
        errors = []\<rparr>, [LLMCall (AnalyseQuery ''Q'')])"
    by (simp add: initial_state_def demo_queries_def)
  from query_analyser_truncates [OF l4 p4, of agents_limits 3] none
  show "query_analyser ?E4 agents_limits (initial_state ''Q'') [] =
     (\<lparr>user_query = ''Q'', search_queries = [''q1'', ''q2'', ''q3'', ''q4''], search_results = [],
        research_summary = [], follow_up_questions = [], current_step = ''search_executor'',
        errors = []\<rparr>, [LLMCall (AnalyseQuery ''Q'')])"
    by (simp add: initial_state_def four_queries_def)
qed

section \<open>The search tool\<close>

lemma collect_results_objects:
  "collect_results (map JObj items) results = Inr (results @ map entry_of items)"
  by (induction items arbitrary: results) (simp_all add: entry_of_def)

lemma py_slice_to_map: "py_slice_to k (map f xs) = map f (py_slice_to k xs)"
  by (simp add: py_slice_to_def take_map)

lemma py_slice_to_Nil: "py_slice_to k [] = []"
  by (simp add: py_slice_to_def)

lemma py_slice_to_length: "0 \<le> k \<Longrightarrow> length (py_slice_to k xs) \<le> nat k"
  by (simp add: py_slice_to_def)

text \<open>
  Claim C10, as stated, fails: \<open>invoke\<close> is not total over the decoded bodies. On the
  body \<^verbatim>\<open>{"organic": null}\<close> the lookup returns \<^verbatim>\<open>None\<close>, not the default, and
  slicing it raises \<^verbatim>\<open>TypeError\<close>.
\<close>

theorem invoke_null_organic_counterexample:
  "http_post (scripted (Inr demo_queries) null_organic_web (Inr demo_summary) (Inr demo_questions))
       [] ''q'' 10 = Inr (JObj [(''organic'', JNull)])
   \<and> SerperSearchTool_invoke
       (scripted (Inr demo_queries) null_organic_web (Inr demo_summary) (Inr demo_questions))
       10 ''q'' [] =
     (Inl (Raised ''TypeError'' (quoted ''NoneType'' @ '' object is not subscriptable'')),
      [SearchCall ''q'' 10])"
  by (simp add: SerperSearchTool_invoke_def organic_results_def scripted_def null_organic_web_def)

text \<open>
  Claim C10, amended. When the decoded body is an object, \<open>invoke\<close> returns the empty
  list if the body has no key \<open>organic\<close>; and if \<open>organic\<close> is an array of objects,
  it returns one entry for each of the items \<^verbatim>\<open>[:k]\<close>, in order, with \<open>title\<close>,
  \<open>url\<close> and \<open>content\<close> read from the item's \<open>title\<close>, \<open>link\<close> and
  \<open>snippet\<close> and null where the item lacks the key; for \<open>k \<ge> 0\<close> these are at
  most \<open>k\<close> entries.
\<close>

theorem invoke_on_organic_objects:
  assumes "http_post env log q k = Inr (JObj body)"
  shows "(map_of body ''organic'' = None \<longrightarrow>
            SerperSearchTool_invoke env k q log = (Inr [], log @ [SearchCall q k]))
         \<and> (map_of body ''organic'' = Some (JArr (map JObj items)) \<longrightarrow>
            SerperSearchTool_invoke env k q log =
              (Inr (map entry_of (py_slice_to k items)), log @ [SearchCall q k])
            \<and> (0 \<le> k \<longrightarrow> length (map entry_of (py_slice_to k items)) \<le> nat k))"
  using assms
  by (simp add: SerperSearchTool_invoke_def organic_results_def py_slice_to_map
      collect_results_objects py_slice_to_length py_slice_to_Nil)

theorem invoke_on_organic_objects_witness:
  "SerperSearchTool_invoke
       (scripted (Inr demo_queries) sparse_web (Inr demo_summary) (Inr demo_questions))
       5 ''none'' [] = (Inr [], [SearchCall ''none'' 5])
   \<and> SerperSearchTool_invoke
       (scripted (Inr demo_queries) sparse_web (Inr demo_summary) (Inr demo_questions))
       2 ''some'' [] =
     (Inr [\<lparr>title = JStr ''a'', url = JNull, content = JNull\<rparr>,
           \<lparr>title = JNull, url = JStr ''u'', content = JStr ''s''\<rparr>],
      [SearchCall ''some'' 2])"
proof (intro conjI)
  let ?E = "scripted (Inr demo_queries) sparse_web (Inr demo_summary) (Inr demo_questions)"
  have none: "http_post ?E [] ''none'' 5
      = Inr (JObj [(''searchParameters'', JObj [(''q'', JStr ''none'')])])"
    by (simp add: scripted_def sparse_web_def)
  have missing: "map_of [(''searchParameters'', JObj [(''q'', JStr ''none'')])] ''organic'' = None"
    by simp
  from invoke_on_organic_objects [OF none, THEN conjunct1, THEN mp, OF missing]
  show "SerperSearchTool_invoke ?E 5 ''none'' [] = (Inr [], [SearchCall ''none'' 5])"
    by simp
  let ?items = "[[(''title'', JStr ''a''), (''position'', JNum 1)],
                 [(''link'', JStr ''u''), (''snippet'', JStr ''s'')], []]"
  have some: "http_post ?E [] ''some'' 2 = Inr (JObj [(''organic'', JArr (map JObj ?items))])"
    by (simp add: scripted_def sparse_web_def)
  have present: "map_of [(''organic'', JArr (map JObj ?items))] ''organic''
      = Some (JArr (map JObj ?items))"
    by simp
  have k: "(0::int) \<le> 2"
    by simp
  from invoke_on_organic_objects [OF some, THEN conjunct2, THEN mp, OF present]
  have "SerperSearchTool_invoke ?E 2 ''some'' [] =
          (Inr (map entry_of (py_slice_to 2 ?items)), [] @ [SearchCall ''some'' 2])
        \<and> length (map entry_of (py_slice_to 2 ?items)) \<le> nat 2"
    using k by blast
  then show "SerperSearchTool_invoke ?E 2 ''some'' [] =
     (Inr [\<lparr>title = JStr ''a'', url = JNull, content = JNull\<rparr>,
           \<lparr>title = JNull, url = JStr ''u'', content = JStr ''s''\<rparr>],
      [SearchCall ''some'' 2])"
    by (simp add: py_slice_to_def entry_of_def)
qed

section \<open>How often the graph is run\<close>

lemma invoke_log_llm:
  "SerperSearchTool_invoke env k q log = (r, log') \<Longrightarrow>
     count_list log' (LLMCall c) = count_list log (LLMCall c)"
  by (auto simp: SerperSearchTool_invoke_def split: sum.splits)

lemma search_loop_log_llm:
  "search_loop env k qs rs log = (r, log') \<Longrightarrow>
     count_list log' (LLMCall c) = count_list log (LLMCall c)"
proof (induction qs arbitrary: rs log)
  case Nil
  then show ?case by simp
next
  case (Cons q qs)
  obtain r1 log1 where i: "SerperSearchTool_invoke env k q log = (r1, log1)"
    by (cases "SerperSearchTool_invoke env k q log")
  have l1: "count_list log1 (LLMCall c) = count_list log (LLMCall c)"
    using i by (rule invoke_log_llm)
  show ?case
  proof (cases r1)
    case (Inl e)
    with Cons.prems i l1 show ?thesis by simp
  next
    case (Inr found)
    with Cons.prems i have "search_loop env k qs (rs @ found) log1 = (r, log')"
      by simp
    then have "count_list log' (LLMCall c) = count_list log1 (LLMCall c)"
      by (rule Cons.IH)
    with l1 show ?thesis by simp
  qed
qed

lemma run_graph_analysis_calls:
  "count_list
     (snd (snd (run_graph build_graph env cfg (Suc (Suc (Suc (Suc (Suc n))))) ''query_analyser''
        (initial_state q) log)))
     (LLMCall (AnalyseQuery q))
   = Suc (count_list log (LLMCall (AnalyseQuery q)))"
  by (auto simp add: run_steps then_run_def failed_def initial_state_def
      simp del: run_graph.simps split: sum.splits prod.splits
      dest: search_loop_log_llm [where c = "AnalyseQuery q"])

lemma stream_analysis_calls:
  "count_list (snd (snd (stream build_graph env cfg (initial_state q) log)))
     (LLMCall (AnalyseQuery q))
   = Suc (count_list log (LLMCall (AnalyseQuery q)))"
  unfolding stream_unfold by (rule run_graph_analysis_calls)

text \<open>
  Claim C1 holds of \<^verbatim>\<open>main.py\<close> and fails in \<^verbatim>\<open>agents.py\<close>. Whatever the
  collaborators answer, the run of \<^verbatim>\<open>agents.py\<close> sends the request of the analysis
  stage to the chat model twice and that of \<^verbatim>\<open>main.py\<close> once. With collaborators
  that always answer, two queries and the question of the specification's first
  scenario, \<^verbatim>\<open>agents.py\<close> makes ten collaborator calls where \<^verbatim>\<open>main.py\<close> makes five.
\<close>

theorem agents_runs_graph_twice:
  "count_list (snd (agents_run_research_workflow env q log)) (LLMCall (AnalyseQuery q))
     = count_list log (LLMCall (AnalyseQuery q)) + 2
   \<and> count_list (snd (main_run_research_workflow env q log)) (LLMCall (AnalyseQuery q))
     = count_list log (LLMCall (AnalyseQuery q)) + 1
   \<and> length (snd (agents_run_research_workflow
        (scripted (Inr demo_queries) demo_web (Inr demo_summary) (Inr demo_questions))
        ''What is photosynthesis?'' [])) = 10
   \<and> length (snd (main_run_research_workflow
        (scripted (Inr demo_queries) demo_web (Inr demo_summary) (Inr demo_questions))
        ''What is photosynthesis?'' [])) = 5"
proof (intro conjI)
  obtain updates streamed log1 where
    s: "stream build_graph env agents_limits (initial_state q) log = (updates, Inr streamed, log1)"
    using stream_total by blast
  obtain final log2 where
    i: "invoke build_graph env agents_limits (initial_state q) log1 = (Inr final, log2)"
    using invoke_total by blast
  have c1: "count_list log1 (LLMCall (AnalyseQuery q))
      = Suc (count_list log (LLMCall (AnalyseQuery q)))"
    using stream_analysis_calls [of env agents_limits q log] s by simp
  have c2: "count_list log2 (LLMCall (AnalyseQuery q))
      = Suc (count_list log1 (LLMCall (AnalyseQuery q)))"
    using stream_analysis_calls [of env agents_limits q log1] i by (simp add: invoke_def)
  from s i c1 c2
  show "count_list (snd (agents_run_research_workflow env q log)) (LLMCall (AnalyseQuery q))
     = count_list log (LLMCall (AnalyseQuery q)) + 2"
    by (simp add: agents_run_research_workflow_def)
next
  obtain final log1 where
    i: "invoke build_graph env main_limits (initial_state q) log = (Inr final, log1)"
    using invoke_total by blast
  have "count_list log1 (LLMCall (AnalyseQuery q))
      = Suc (count_list log (LLMCall (AnalyseQuery q)))"
    using stream_analysis_calls [of env main_limits q log] i by (simp add: invoke_def)
  with i
  show "count_list (snd (main_run_research_workflow env q log)) (LLMCall (AnalyseQuery q))
     = count_list log (LLMCall (AnalyseQuery q)) + 1"
    by (simp add: main_run_research_workflow_def)
next
  show "length (snd (agents_run_research_workflow
        (scripted (Inr demo_queries) demo_web (Inr demo_summary) (Inr demo_questions))
        ''What is photosynthesis?'' [])) = 10"
    by code_simp
next
  show "length (snd (main_run_research_workflow
        (scripted (Inr demo_queries) demo_web (Inr demo_summary) (Inr demo_questions))
        ''What is photosynthesis?'' [])) = 5"
    by code_simp
qed

section \<open>A failure during the streamed run\<close>

text \<open>
  Claim C7 fails in \<^verbatim>\<open>agents.py\<close>. Let the chat model fail in transport on the first
  call and answer afterwards. The streamed run captures the failure, ending at
  \<open>complete\<close> with \<open>errors = ["query_analyser: Connection error."]\<close>; its state is
  dropped. The invoked run then succeeds, and \<^verbatim>\<open>run_research_workflow\<close> returns its
  fields with \<open>errors = []\<close>: the failure that occurred inside a stage is not in the
  returned result. With the same collaborators \<^verbatim>\<open>main.py\<close>, which runs the graph once,
  returns the failure in \<open>errors\<close>.
\<close>

theorem agents_drops_streamed_failure:
  "stream build_graph flaky agents_limits (initial_state ''Q'') [] =
     ([(''query_analyser'',
        \<lparr>user_query = ''Q'', search_queries = [], search_results = [], research_summary = [],
         follow_up_questions = [], current_step = ''error'',
         errors = [''query_analyser: Connection error.'']\<rparr>),
       (''error'',
        \<lparr>user_query = ''Q'', search_queries = [], search_results = [], research_summary = [],
         follow_up_questions = [], current_step = ''complete'',
         errors = [''query_analyser: Connection error.'']\<rparr>)],
      Inr \<lparr>user_query = ''Q'', search_queries = [], search_results = [], research_summary = [],
           follow_up_questions = [], current_step = ''complete'',
           errors = [''query_analyser: Connection error.'']\<rparr>,
      [LLMCall (AnalyseQuery ''Q'')])
   \<and> agents_run_research_workflow flaky ''Q'' [] =
     (Inr \<lparr>original_query = ''Q'', result_search_queries = [''q1'', ''q2''],
           result_research_summary = ''Photosynthesis converts light to chemical energy.'',
           result_follow_up_questions = [''f1'', ''f2''], result_errors = [],
           progress = None\<rparr>,
      [LLMCall (AnalyseQuery ''Q''), LLMCall (AnalyseQuery ''Q''),
       SearchCall ''q1'' 10, SearchCall ''q2'' 10,
       LLMCall (Synthesise ''Q'' [found ''r1a'', found ''r1b'', found ''r2a'']),
       LLMCall (FollowUps ''Q'' ''Photosynthesis converts light to chemical energy.'')])
   \<and> main_run_research_workflow flaky ''Q'' [] =
     (Inr \<lparr>original_query = ''Q'', result_search_queries = [], result_research_summary = [],
           result_follow_up_questions = [],
           result_errors = [''query_analyser: Connection error.''], progress = Some []\<rparr>,
      [LLMCall (AnalyseQuery ''Q'')])"
  by code_simp

end
